theory Spec2Isabelle
  imports Main
begin

section \<open>Data model of \<open>src/lib/can.ts\<close>\<close>

text \<open>
  The value of a rule's \<open>target\<close> has the TypeScript type \<open>unknown\<close>: any JavaScript
  value. The code does two things with it: it tests it for truthiness and it hands it to
  the checks. \<open>JUndefined\<close> is also what reading an absent \<open>target\<close> field yields, so it
  stands for "no target". The values represented are \<open>undefined\<close>, \<open>null\<close>, the booleans, the
  integers and \<open>NaN\<close> among the numbers, the strings, and the objects that hold data
  properties only.
\<close>

datatype jsval =
    JUndefined
  | JNull
  | JBool bool
  | JNum int
  | JNaN
  | JStr string
  | JObj "(string \<times> jsval) list"

text \<open>JavaScript's \<open>ToBoolean\<close>, as applied by \<open>&&\<close>, \<open>!\<close> and \<open>if\<close>.\<close>

fun truthy :: "jsval \<Rightarrow> bool" where
  "truthy JUndefined = False"
| "truthy JNull = False"
| "truthy (JBool b) = b"
| "truthy (JNum n) = (n \<noteq> 0)"
| "truthy JNaN = False"
| "truthy (JStr s) = (s \<noteq> [])"
| "truthy (JObj ps) = True"

text \<open>
  What evaluation can throw: a \<open>TypeError\<close> (reading a property of \<open>undefined\<close>, calling
  what is not a function), and whatever a caller-supplied check throws itself.
\<close>

datatype error = TypeError | Thrown string

text \<open>
  \<open>Abilities\<close>, \<open>Checks\<close> and \<open>Permissions\<close> are objects used as dictionaries: a map gives
  their own properties. A check is a function from the target to a boolean, which may
  throw. The type of the check functions is a parameter of \<open>PermissionModule\<close>: \<open>Check\<close>
  for functions that only compute a result, and further down \<open>EffectfulCheck\<close> for
  functions that also act on the state they run in.
\<close>

type_synonym Abilities = "string \<rightharpoonup> bool"

type_synonym Check = "jsval \<Rightarrow> error + bool"

record 'f PermissionModule =
  abilities :: Abilities
  checks :: "string \<rightharpoonup> 'f"

type_synonym Permissions = "string \<rightharpoonup> Check PermissionModule"

text \<open>
  \<open>Rules\<close>: every field is optional. An absent \<open>module\<close>, \<open>abilities\<close> or \<open>checks\<close> reads
  as \<open>undefined\<close>, here \<open>None\<close>; an absent \<open>target\<close> reads as \<open>JUndefined\<close>.
\<close>

record Rules =
  module :: "string option"
  abilities :: "string list option"
  checks :: "string list option"
  target :: jsval

text \<open>
  \<open>TestRules\<close>: an object from labels to \<open>Rules\<close>. \<open>canAllow\<close> enumerates it with
  \<open>Object.keys\<close> and stops at the first key it finds, so the order of the keys matters:
  the object is the list of its properties in the order \<open>Object.keys\<close> lists them (an
  object has every key once; \<open>test[key]\<close> is the lookup \<open>map_of\<close>).
\<close>

type_synonym TestRules = "(string \<times> Rules) list"

section \<open>Property lookup\<close>

text \<open>
  The objects are written as object literals, so \<open>obj[name]\<close> finds, after the object's
  own properties, the properties of \<open>Object.prototype\<close>. These are its twelve names.
\<close>

definition object_prototype :: "string list" where
  "object_prototype =
     [''constructor'', ''__defineGetter__'', ''__defineSetter__'', ''hasOwnProperty'',
      ''__lookupGetter__'', ''__lookupSetter__'', ''isPrototypeOf'',
      ''propertyIsEnumerable'', ''toString'', ''valueOf'', ''__proto__'',
      ''toLocaleString'']"

definition inherited :: "string \<Rightarrow> bool" where
  "inherited name = (name \<in> set object_prototype)"

text \<open>
  \<open>obj[name]\<close> on a dictionary: the own property, else the inherited member (a function,
  or for \<open>__proto__\<close> the prototype object; truthy in both cases), else \<open>undefined\<close>.
\<close>

datatype 'v property = Missing | Inherited | Own 'v

definition get :: "(string \<rightharpoonup> 'v) \<Rightarrow> string \<Rightarrow> 'v property" where
  "get obj name =
     (case obj name of
        Some v \<Rightarrow> Own v
      | None \<Rightarrow> if inherited name then Inherited else Missing)"

text \<open>
  \<open>ToPropertyKey\<close>, the string a value names a property by. An object is converted by
  its \<open>toString\<close>, then its \<open>valueOf\<close>: the inherited \<open>toString\<close> gives \<open>[object Object]\<close>;
  when the object has an own data property \<open>toString\<close> there is no function to call, the
  inherited or own \<open>valueOf\<close> yields no primitive either, and the conversion throws.
\<close>

fun decimal :: "nat \<Rightarrow> string" where
  "decimal n =
     (if n < 10 then [''0123456789'' ! n]
      else decimal (n div 10) @ [''0123456789'' ! (n mod 10)])"

fun property_key :: "jsval \<Rightarrow> error + string" where
  "property_key JUndefined = Inr ''undefined''"
| "property_key JNull = Inr ''null''"
| "property_key (JBool b) = Inr (if b then ''true'' else ''false'')"
| "property_key (JNum n) = Inr (if n < 0 then CHR ''-'' # decimal (nat (- n)) else decimal (nat n))"
| "property_key JNaN = Inr ''NaN''"
| "property_key (JStr s) = Inr s"
| "property_key (JObj ps) =
     (if map_of ps ''toString'' = None then Inr ''[object Object]'' else Inl TypeError)"

text \<open>
  What calling an inherited member does, as \<open>obj[name](arg)\<close> with \<open>obj\<close> the object it
  was found on (\<open>this\<close>, given by its own properties): it returns a value, of which only
  the truthiness matters; or it throws; or it calls a function of the object itself.

  \<^item> \<open>constructor\<close> is \<open>Object\<close> and returns an object; \<open>toString\<close> returns the string
    \<open>[object Object]\<close>; \<open>valueOf\<close> returns \<open>this\<close>.
  \<^item> \<open>toLocaleString\<close> calls \<open>this.toString()\<close>: the own \<open>toString\<close> when there is one,
    without an argument.
  \<^item> \<open>hasOwnProperty\<close> and \<open>propertyIsEnumerable\<close> tell whether the argument names an own
    property (those of a literal are enumerable).
  \<^item> \<open>isPrototypeOf\<close> returns \<open>false\<close>: \<open>this\<close> is not the prototype of any value
    represented.
  \<^item> \<open>__lookupGetter__\<close> and \<open>__lookupSetter__\<close> return a function for the accessor
    \<open>__proto__\<close> of the prototype only, \<open>undefined\<close> otherwise.
  \<^item> \<open>__defineGetter__\<close> and \<open>__defineSetter__\<close> throw a \<open>TypeError\<close>, for want of a
    function as second argument; \<open>__proto__\<close> is the prototype object, not a function, and
    calling it is a \<open>TypeError\<close>.
\<close>

datatype 'f call = Returns bool | Throws error | Invokes 'f jsval

definition inherited_call :: "(string \<rightharpoonup> 'f) \<Rightarrow> string \<Rightarrow> jsval \<Rightarrow> 'f call" where
  "inherited_call this name arg =
     (if name = ''constructor'' \<or> name = ''toString'' \<or> name = ''valueOf'' then Returns True
      else if name = ''toLocaleString'' then
        (case this ''toString'' of
           None \<Rightarrow> Returns True
         | Some f \<Rightarrow> Invokes f JUndefined)
      else if name = ''hasOwnProperty'' \<or> name = ''propertyIsEnumerable'' then
        (case property_key arg of
           Inl e \<Rightarrow> Throws e
         | Inr key \<Rightarrow> Returns (this key \<noteq> None))
      else if name = ''isPrototypeOf'' then Returns False
      else if name = ''__lookupGetter__'' \<or> name = ''__lookupSetter__'' then
        (case property_key arg of
           Inl e \<Rightarrow> Throws e
         | Inr key \<Rightarrow> Returns (key = ''__proto__'' \<and> this ''__proto__'' = None))
      else Throws TypeError)"

section \<open>The functions\<close>

text \<open>
  \<open>Array.prototype.find\<close>: the first element on which the callback yields a truthy
  value, \<open>undefined\<close> (\<open>None\<close>) when there is none; a callback that throws ends the search
  with its exception.
\<close>

fun find_js :: "('a \<Rightarrow> error + bool) \<Rightarrow> 'a list \<Rightarrow> error + 'a option" where
  "find_js f [] = Inr None"
| "find_js f (x # xs) =
     (case f x of
        Inl e \<Rightarrow> Inl e
      | Inr b \<Rightarrow> if b then Inr (Some x) else find_js f xs)"

text \<open>
  The result of \<open>find\<close> over strings, used as a condition: \<open>undefined\<close> is falsy, and so
  is the empty string.
\<close>

fun truthy_found :: "string option \<Rightarrow> bool" where
  "truthy_found None = False"
| "truthy_found (Some s) = (s \<noteq> [])"

text \<open>
  \<open>permModule\<close> below is what \<open>permissions[rules.module]\<close> found and the test
  \<open>!permModule\<close> let through: a module of the permissions, or an inherited member. The
  latter has no property \<open>abilities\<close> and no property \<open>checks\<close>: both read as
  \<open>undefined\<close>, and reading a property of \<open>undefined\<close> is a \<open>TypeError\<close>.

  \<open>!permModule.abilities[ability]\<close>: a missing ability reads as \<open>undefined\<close>, an inherited
  name as a truthy member.
\<close>

definition ability_lacking :: "'f PermissionModule property \<Rightarrow> string \<Rightarrow> error + bool" where
  "ability_lacking permModule ability =
     (case permModule of
        Own m \<Rightarrow>
          (case get (PermissionModule.abilities m) ability of
             Own b \<Rightarrow> Inr (\<not> b)
           | Inherited \<Rightarrow> Inr False
           | Missing \<Rightarrow> Inr True)
      | _ \<Rightarrow> Inl TypeError)"

text \<open>
  \<open>!permModule.checks[check](rules.target)\<close>: a declared check is called, an inherited
  member is called as a method of the checks object, and calling a missing check is a
  \<open>TypeError\<close>.
\<close>

definition run :: "Check \<Rightarrow> jsval \<Rightarrow> error + bool" where
  "run predicate arg =
     (case predicate arg of
        Inl e \<Rightarrow> Inl e
      | Inr b \<Rightarrow> Inr (\<not> b))"

definition check_failing ::
  "Check PermissionModule property \<Rightarrow> jsval \<Rightarrow> string \<Rightarrow> error + bool" where
  "check_failing permModule tgt check =
     (case permModule of
        Own m \<Rightarrow>
          (case get (PermissionModule.checks m) check of
             Own predicate \<Rightarrow> run predicate tgt
           | Inherited \<Rightarrow>
               (case inherited_call (PermissionModule.checks m) check tgt of
                  Returns b \<Rightarrow> Inr (\<not> b)
                | Throws e \<Rightarrow> Inl e
                | Invokes f arg \<Rightarrow> run f arg)
           | Missing \<Rightarrow> Inl TypeError)
      | _ \<Rightarrow> Inl TypeError)"

text \<open>The step \<open>if (rules.abilities) { if (rules.abilities.find(...)) return false }\<close>:
  \<open>Inr True\<close> when the step returns \<open>false\<close> from \<open>checkPermissions\<close>.\<close>

definition abilities_denied :: "'f PermissionModule property \<Rightarrow> Rules \<Rightarrow> error + bool" where
  "abilities_denied permModule rules =
     (case Rules.abilities rules of
        None \<Rightarrow> Inr False
      | Some as \<Rightarrow>
          (case find_js (ability_lacking permModule) as of
             Inl e \<Rightarrow> Inl e
           | Inr found \<Rightarrow> Inr (truthy_found found)))"

text \<open>The step \<open>if (rules.checks && rules.target) { if (rules.checks.find(...)) return false }\<close>.\<close>

definition checks_denied :: "Check PermissionModule property \<Rightarrow> Rules \<Rightarrow> error + bool" where
  "checks_denied permModule rules =
     (case Rules.checks rules of
        None \<Rightarrow> Inr False
      | Some cs \<Rightarrow>
          if truthy (target rules) then
            (case find_js (check_failing permModule (target rules)) cs of
               Inl e \<Rightarrow> Inl e
             | Inr found \<Rightarrow> Inr (truthy_found found))
          else Inr False)"

definition checkPermissions :: "Permissions \<Rightarrow> Rules \<Rightarrow> error + bool" where
  "checkPermissions permissions rules =
     (case module rules of
        None \<Rightarrow> Inr True
      | Some name \<Rightarrow>
          if name = ''undefined'' then Inr True
          else
            (case get permissions name of
               Missing \<Rightarrow> Inr False
             | permModule \<Rightarrow>
                 (case abilities_denied permModule rules of
                    Inl e \<Rightarrow> Inl e
                  | Inr True \<Rightarrow> Inr False
                  | Inr False \<Rightarrow>
                      (case checks_denied permModule rules of
                         Inl e \<Rightarrow> Inl e
                       | Inr True \<Rightarrow> Inr False
                       | Inr False \<Rightarrow> Inr True))))"

text \<open>\<open>Object.keys(test)\<close>.\<close>

definition object_keys :: "TestRules \<Rightarrow> string list" where
  "object_keys test = map fst test"

text \<open>
  \<open>{...test[key], module: key}\<close>: the properties of \<open>test[key]\<close> with \<open>module\<close> set to the
  key (spreading \<open>undefined\<close> contributes nothing).
\<close>

definition no_rules :: Rules where
  "no_rules = \<lparr>module = None, abilities = None, checks = None, target = JUndefined\<rparr>"

definition effective_rules :: "TestRules \<Rightarrow> string \<Rightarrow> Rules" where
  "effective_rules test key =
     (case map_of test key of
        None \<Rightarrow> no_rules\<lparr>module := Some key\<rparr>
      | Some rules \<Rightarrow> rules\<lparr>module := Some key\<rparr>)"

text \<open>The callback of \<open>canAllow\<close>: \<open>!checkPermissions(permissions, {...})\<close>.\<close>

definition rule_failing :: "Permissions \<Rightarrow> TestRules \<Rightarrow> string \<Rightarrow> error + bool" where
  "rule_failing permissions test key =
     (case checkPermissions permissions (effective_rules test key) of
        Inl e \<Rightarrow> Inl e
      | Inr b \<Rightarrow> Inr (\<not> b))"

definition canAllow :: "Permissions \<Rightarrow> TestRules \<Rightarrow> error + bool" where
  "canAllow permissions test =
     (case find_js (rule_failing permissions test) (object_keys test) of
        Inl e \<Rightarrow> Inl e
      | Inr found \<Rightarrow> Inr (\<not> truthy_found found))"

section \<open>Checks with side effects\<close>

text \<open>
  A JavaScript function can do more than return a value: a check can write to the objects
  it reaches and to the variables it closes over. To tell whether a check is called at
  all, the state the checks act on is made explicit: \<open>'s\<close> stands for it, and an effectful
  check maps the target and the state before the call to its result and the state after
  it. The functions below are \<open>checkPermissions\<close> and \<open>canAllow\<close> once more, with the state
  threaded through every call of a check.
\<close>

type_synonym 's EffectfulCheck = "jsval \<Rightarrow> 's \<Rightarrow> (error + bool) \<times> 's"

type_synonym 's EffectfulPermissions = "string \<rightharpoonup> 's EffectfulCheck PermissionModule"

fun find_st :: "('a \<Rightarrow> 's \<Rightarrow> (error + bool) \<times> 's) \<Rightarrow> 'a list \<Rightarrow> 's \<Rightarrow> (error + 'a option) \<times> 's" where
  "find_st f [] s = (Inr None, s)"
| "find_st f (x # xs) s =
     (case f x s of
        (Inl e, s') \<Rightarrow> (Inl e, s')
      | (Inr b, s') \<Rightarrow> if b then (Inr (Some x), s') else find_st f xs s')"

definition run_st :: "'s EffectfulCheck \<Rightarrow> jsval \<Rightarrow> 's \<Rightarrow> (error + bool) \<times> 's" where
  "run_st predicate arg s =
     (case predicate arg s of
        (Inl e, s') \<Rightarrow> (Inl e, s')
      | (Inr b, s') \<Rightarrow> (Inr (\<not> b), s'))"

definition check_failing_st ::
  "'s EffectfulCheck PermissionModule property \<Rightarrow> jsval \<Rightarrow> string \<Rightarrow> 's \<Rightarrow>
     (error + bool) \<times> 's" where
  "check_failing_st permModule tgt check s =
     (case permModule of
        Own m \<Rightarrow>
          (case get (PermissionModule.checks m) check of
             Own predicate \<Rightarrow> run_st predicate tgt s
           | Inherited \<Rightarrow>
               (case inherited_call (PermissionModule.checks m) check tgt of
                  Returns b \<Rightarrow> (Inr (\<not> b), s)
                | Throws e \<Rightarrow> (Inl e, s)
                | Invokes f arg \<Rightarrow> run_st f arg s)
           | Missing \<Rightarrow> (Inl TypeError, s))
      | _ \<Rightarrow> (Inl TypeError, s))"

definition checks_denied_st ::
  "'s EffectfulCheck PermissionModule property \<Rightarrow> Rules \<Rightarrow> 's \<Rightarrow> (error + bool) \<times> 's" where
  "checks_denied_st permModule rules s =
     (case Rules.checks rules of
        None \<Rightarrow> (Inr False, s)
      | Some cs \<Rightarrow>
          if truthy (target rules) then
            (case find_st (check_failing_st permModule (target rules)) cs s of
               (Inl e, s') \<Rightarrow> (Inl e, s')
             | (Inr found, s') \<Rightarrow> (Inr (truthy_found found), s'))
          else (Inr False, s))"

definition checkPermissions_st ::
  "'s EffectfulPermissions \<Rightarrow> Rules \<Rightarrow> 's \<Rightarrow> (error + bool) \<times> 's" where
  "checkPermissions_st permissions rules s =
     (case module rules of
        None \<Rightarrow> (Inr True, s)
      | Some name \<Rightarrow>
          if name = ''undefined'' then (Inr True, s)
          else
            (case get permissions name of
               Missing \<Rightarrow> (Inr False, s)
             | permModule \<Rightarrow>
                 (case abilities_denied permModule rules of
                    Inl e \<Rightarrow> (Inl e, s)
                  | Inr True \<Rightarrow> (Inr False, s)
                  | Inr False \<Rightarrow>
                      (case checks_denied_st permModule rules s of
                         (Inl e, s') \<Rightarrow> (Inl e, s')
                       | (Inr True, s') \<Rightarrow> (Inr False, s')
                       | (Inr False, s') \<Rightarrow> (Inr True, s')))))"

definition rule_failing_st ::
  "'s EffectfulPermissions \<Rightarrow> TestRules \<Rightarrow> string \<Rightarrow> 's \<Rightarrow> (error + bool) \<times> 's" where
  "rule_failing_st permissions test key s =
     (case checkPermissions_st permissions (effective_rules test key) s of
        (Inl e, s') \<Rightarrow> (Inl e, s')
      | (Inr b, s') \<Rightarrow> (Inr (\<not> b), s'))"

definition canAllow_st ::
  "'s EffectfulPermissions \<Rightarrow> TestRules \<Rightarrow> 's \<Rightarrow> (error + bool) \<times> 's" where
  "canAllow_st permissions test s =
     (case find_st (rule_failing_st permissions test) (object_keys test) s of
        (Inl e, s') \<Rightarrow> (Inl e, s')
      | (Inr found, s') \<Rightarrow> (Inr (\<not> truthy_found found), s'))"

text \<open>
  A check that only computes a result, seen as an effectful one that leaves the state as
  it found it.
\<close>

definition effect_free :: "Check \<Rightarrow> 's EffectfulCheck" where
  "effect_free predicate = (\<lambda>tgt s. (predicate tgt, s))"

definition effect_free_module :: "Check PermissionModule \<Rightarrow> 's EffectfulCheck PermissionModule" where
  "effect_free_module permModule =
     \<lparr>PermissionModule.abilities = PermissionModule.abilities permModule,
      PermissionModule.checks = map_option effect_free \<circ> PermissionModule.checks permModule\<rparr>"

definition effect_free_permissions :: "Permissions \<Rightarrow> 's EffectfulPermissions" where
  "effect_free_permissions permissions = map_option effect_free_module \<circ> permissions"

section \<open>The permissions of the test suite\<close>

text \<open>
  Property access \<open>target.name\<close>, for the names the checks of the test suite read: it
  throws on \<open>undefined\<close> and \<open>null\<close>, it reads an object's property, and on a primitive
  value it yields \<open>undefined\<close>.
\<close>

fun get_prop :: "jsval \<Rightarrow> string \<Rightarrow> error + jsval" where
  "get_prop JUndefined name = Inl TypeError"
| "get_prop JNull name = Inl TypeError"
| "get_prop (JObj ps) name = (case map_of ps name of None \<Rightarrow> Inr JUndefined | Some v \<Rightarrow> Inr v)"
| "get_prop v name = Inr JUndefined"

text \<open>A check of the form \<open>(target) => target.name\<close>, its result read as a boolean.\<close>

definition prop_check :: "string \<Rightarrow> jsval \<Rightarrow> error + bool" where
  "prop_check name tgt = (case get_prop tgt name of Inl e \<Rightarrow> Inl e | Inr v \<Rightarrow> Inr (truthy v))"

definition moduleA :: "Check PermissionModule" where
  "moduleA =
     \<lparr>PermissionModule.abilities = [''read'' \<mapsto> True, ''write'' \<mapsto> False],
      PermissionModule.checks = [''isAdmin'' \<mapsto> prop_check ''isAdmin'']\<rparr>"

definition moduleB :: "Check PermissionModule" where
  "moduleB =
     \<lparr>PermissionModule.abilities = [''read'' \<mapsto> True, ''write'' \<mapsto> True],
      PermissionModule.checks = [''hasAccess'' \<mapsto> prop_check ''isValidUser'']\<rparr>"

definition userPermissions :: Permissions where
  "userPermissions = [''moduleA'' \<mapsto> moduleA, ''moduleB'' \<mapsto> moduleB]"

section \<open>Further inputs\<close>



text \<open>
  A check that counts its calls in a variable of the caller,
  \<open>seen: (target) => { calls += 1; return true; }\<close>; the state is the value of \<open>calls\<close>.
\<close>

definition seen :: "nat EffectfulCheck" where
  "seen tgt calls = (Inr True, Suc calls)"

definition counted :: "nat EffectfulPermissions" where
  "counted =
     [''m'' \<mapsto> \<lparr>PermissionModule.abilities = Map.empty,
                  PermissionModule.checks = [''seen'' \<mapsto> seen]\<rparr>]"

section \<open>Objects on a heap\<close>

text \<open>
  To tell what an evaluation does to its inputs, the inputs are put where it could
  change them: on a heap of objects, known by their addresses. A heap is the list of its
  objects, and the address of an object is its index. The permissions and a rules object
  are stored with all they hold (the evaluation writes to none of their parts, so that
  sharing among them cannot be observed); the test object holds, for every label, the
  address of a rules object. The checks are functions without effects, as the
  specification assumes of them (section 5).
\<close>

datatype obj =
    PermissionsObj Permissions
  | RulesObj Rules
  | TestObj "(string \<times> nat) list"











section \<open>The scenarios of the test suite\<close>

lemmas fixture_defs =
  userPermissions_def moduleA_def moduleB_def prop_check_def no_rules_def

lemmas lookup_defs =
  get_def inherited_def object_prototype_def

lemmas step_defs =
  checkPermissions_def abilities_denied_def checks_denied_def ability_lacking_def
  check_failing_def run_def canAllow_def rule_failing_def effective_rules_def object_keys_def
  lookup_defs

lemma test_required_permissions:
  "checkPermissions userPermissions
     \<lparr>module = Some ''moduleA'', abilities = Some [''read''], checks = None,
      target = JUndefined\<rparr> = Inr True"
  by (simp add: step_defs fixture_defs)

lemma test_lacking_ability:
  "checkPermissions userPermissions
     \<lparr>module = Some ''moduleA'', abilities = Some [''write''], checks = None,
      target = JUndefined\<rparr> = Inr False"
  by (simp add: step_defs fixture_defs)

lemma test_failing_check:
  "checkPermissions userPermissions
     \<lparr>module = Some ''moduleB'', abilities = None, checks = Some [''hasAccess''],
      target = JObj [(''isValidUser'', JBool False)]\<rparr> = Inr False"
  by (simp add: step_defs fixture_defs)

lemma test_no_rules:
  "checkPermissions userPermissions no_rules = Inr True"
  by (simp add: step_defs fixture_defs)

lemma test_undefined_module:
  "checkPermissions userPermissions
     \<lparr>module = None, abilities = Some [''read''], checks = None, target = JUndefined\<rparr> =
   Inr True"
  by (simp add: step_defs fixture_defs)

lemma test_undefined_abilities:
  "checkPermissions userPermissions
     \<lparr>module = Some ''moduleA'', abilities = None, checks = None, target = JUndefined\<rparr> =
   Inr True"
  by (simp add: step_defs fixture_defs)

lemma test_unknown_module:
  "checkPermissions userPermissions
     \<lparr>module = Some ''nonExistentModule'', abilities = Some [''read''], checks = None,
      target = JUndefined\<rparr> = Inr False"
  by (simp add: step_defs fixture_defs)


lemma test_canAllow_lacking:
  "canAllow userPermissions
     [(''moduleA'', no_rules\<lparr>abilities := Some [''write'']\<rparr>),
      (''moduleB'', no_rules\<lparr>checks := Some [''hasAccess''],
                             target := JObj [(''isValidUser'', JBool False)]\<rparr>)] = Inr False"
  by (simp add: step_defs fixture_defs)

section \<open>Inherited members\<close>

text \<open>
  Inherited names stand in for abilities and checks that a module does not hold: the
  ability \<open>valueOf\<close> counts as granted, and the check \<open>hasOwnProperty\<close> denies or passes
  with the target.
\<close>

lemma inherited_ability_granted:
  "checkPermissions userPermissions
     \<lparr>module = Some ''moduleA'', abilities = Some [''valueOf''], checks = None,
      target = JUndefined\<rparr> = Inr True"
  by (simp add: step_defs fixture_defs)

lemma inherited_check_denies:
  "checkPermissions userPermissions
     \<lparr>module = Some ''moduleA'', abilities = None, checks = Some [''hasOwnProperty''],
      target = JObj [(''isAdmin'', JBool False)]\<rparr> = Inr False"
  by (simp add: step_defs fixture_defs inherited_call_def)

lemma inherited_check_finds_own_name:
  "checkPermissions userPermissions
     \<lparr>module = Some ''moduleA'', abilities = None, checks = Some [''hasOwnProperty''],
      target = JStr ''isAdmin''\<rparr> = Inr True"
  by (simp add: step_defs fixture_defs inherited_call_def)

lemma get_not_inherited: "\<not> inherited name \<Longrightarrow> get obj name = (case obj name of None \<Rightarrow> Missing | Some v \<Rightarrow> Own v)"
  by (simp add: get_def split: option.splits)


lemma get_Missing_iff: "get obj name = Missing \<longleftrightarrow> obj name = None \<and> \<not> inherited name"
  by (simp add: get_def split: option.splits)

section \<open>Searching with \<open>find\<close>\<close>

lemma find_js_total:
  "(\<And>x. x \<in> set xs \<Longrightarrow> f x = Inr (g x)) \<Longrightarrow> find_js f xs = Inr (List.find g xs)"
  by (induction xs) simp_all





lemma find_None_iff_all: "List.find g xs = None \<longleftrightarrow> (\<forall>x\<in>set xs. \<not> g x)"
  by (induction xs) simp_all

lemma find_Some_mem: "List.find g xs = Some x \<Longrightarrow> x \<in> set xs \<and> g x"
  by (induction xs) (auto split: if_splits)

section \<open>The abilities step\<close>

lemma ability_lacking_module:
  "ability_lacking (Own m) a =
     Inr (\<not> (PermissionModule.abilities m a = Some True \<or>
             PermissionModule.abilities m a = None \<and> inherited a))"
  by (auto simp add: ability_lacking_def get_def split: option.splits)


lemma abilities_denied_checks_update [simp]:
  "abilities_denied permModule (rules\<lparr>checks := cs\<rparr>) = abilities_denied permModule rules"
  by (simp add: abilities_denied_def)

lemma abilities_denied_target_update [simp]:
  "abilities_denied permModule (rules\<lparr>target := t\<rparr>) = abilities_denied permModule rules"
  by (simp add: abilities_denied_def)

text \<open>
  When no required ability is the empty string or an inherited name, the step denies
  exactly when some required ability is missing from the module or mapped to \<open>false\<close>.
\<close>

lemma abilities_denied_named:
  assumes "Rules.abilities rules = Some as" and "[] \<notin> set as"
    and "\<forall>a\<in>set as. \<not> inherited a"
  shows "abilities_denied (Own m) rules =
           Inr (\<exists>a\<in>set as. PermissionModule.abilities m a \<noteq> Some True)"
proof -
  let ?g = "\<lambda>a. PermissionModule.abilities m a \<noteq> Some True"
  have "ability_lacking (Own m) a = Inr (?g a)" if "a \<in> set as" for a
    using that assms(3) by (auto simp add: ability_lacking_module)
  then have found: "find_js (ability_lacking (Own m)) as = Inr (List.find ?g as)"
    by (rule find_js_total)
  have "truthy_found (List.find ?g as) \<longleftrightarrow> (\<exists>a\<in>set as. ?g a)"
  proof (cases "List.find ?g as")
    case None
    then have "\<not> (\<exists>a\<in>set as. ?g a)" by (simp add: find_None_iff_all)
    then show ?thesis by (simp add: None)
  next
    case (Some a)
    then have "a \<in> set as \<and> ?g a" by (rule find_Some_mem)
    moreover from this have "a \<noteq> []" using assms(2) by auto
    ultimately show ?thesis using Some by auto
  qed
  then show ?thesis using assms(1) by (simp add: abilities_denied_def found)
qed

section \<open>The checks step\<close>

lemma checks_denied_no_checks:
  "Rules.checks rules = None \<Longrightarrow> checks_denied permModule rules = Inr False"
  by (simp add: checks_denied_def)

lemma checks_denied_falsy_target:
  "\<not> truthy (target rules) \<Longrightarrow> checks_denied permModule rules = Inr False"
  by (simp add: checks_denied_def split: option.splits)






section \<open>The aggregator\<close>

lemma canAllow_no_rules: "canAllow permissions [] = Inr True"
  by (simp add: canAllow_def object_keys_def)

text \<open>
  When no label is the empty string and no rule faults, \<open>canAllow\<close> is the conjunction of
  \<open>checkPermissions\<close> over the effective rules.
\<close>

lemma canAllow_named:
  assumes "[] \<notin> set (object_keys test)"
    and "\<forall>key\<in>set (object_keys test).
           \<exists>b. checkPermissions permissions (effective_rules test key) = Inr b"
  shows "canAllow permissions test =
           Inr (\<forall>key\<in>set (object_keys test).
                  checkPermissions permissions (effective_rules test key) = Inr True)"
proof -
  let ?g = "\<lambda>key. checkPermissions permissions (effective_rules test key) \<noteq> Inr True"
  have "rule_failing permissions test key = Inr (?g key)" if "key \<in> set (object_keys test)" for key
    using assms(2) that by (auto simp add: rule_failing_def)
  then have found: "find_js (rule_failing permissions test) (object_keys test) =
      Inr (List.find ?g (object_keys test))"
    by (rule find_js_total)
  have "truthy_found (List.find ?g (object_keys test)) \<longleftrightarrow> (\<exists>key\<in>set (object_keys test). ?g key)"
  proof (cases "List.find ?g (object_keys test)")
    case None
    then have "\<not> (\<exists>key\<in>set (object_keys test). ?g key)" by (simp add: find_None_iff_all)
    then show ?thesis by (simp add: None)
  next
    case (Some key)
    then have "key \<in> set (object_keys test) \<and> ?g key" by (rule find_Some_mem)
    moreover from this have "key \<noteq> []" using assms(1) by auto
    ultimately show ?thesis using Some by auto
  qed
  then show ?thesis by (simp add: canAllow_def found)
qed

section \<open>The steps with effectful checks\<close>

lemma snd_case_result:
  "snd (case p of (Inl e, s') \<Rightarrow> (Inl e, s') | (Inr b, s') \<Rightarrow> (Inr (g b), s')) = snd p"
  by (simp split: prod.splits sum.splits)

lemma snd_case_verdict:
  "snd (case p of
          (Inl e, s') \<Rightarrow> (Inl e, s')
        | (Inr True, s') \<Rightarrow> (Inr False, s')
        | (Inr False, s') \<Rightarrow> (Inr True, s')) = snd p"
  by (simp split: prod.splits sum.splits bool.splits)

lemma checks_denied_st_no_checks:
  "Rules.checks rules = None \<Longrightarrow> checks_denied_st permModule rules s = (Inr False, s)"
  by (simp add: checks_denied_st_def)

lemma checks_denied_st_falsy_target:
  "\<not> truthy (target rules) \<Longrightarrow> checks_denied_st permModule rules s = (Inr False, s)"
  by (simp add: checks_denied_st_def split: option.splits)

section \<open>Properties of \<open>checkPermissions\<close>\<close>

text \<open>
  C4. When the rule's \<open>module\<close> is absent or is the string \<open>"undefined"\<close>,
  \<open>checkPermissions\<close> returns \<open>true\<close>, whatever the permissions (the empty ones too) and
  whatever the rule's abilities, checks and target.
\<close>

theorem checkPermissions_without_module:
  "module rules = None \<or> module rules = Some ''undefined'' \<Longrightarrow>
     checkPermissions permissions rules = Inr True"
  by (auto simp add: checkPermissions_def)

theorem checkPermissions_without_module_witness:
  "checkPermissions Map.empty
     \<lparr>module = None, abilities = Some [''read''], checks = Some [''isAdmin''],
      target = JObj []\<rparr> = Inr True"
  using checkPermissions_without_module
    [where rules = "\<lparr>module = None, abilities = Some [''read''],
                     checks = Some [''isAdmin''], target = JObj []\<rparr>"
       and permissions = Map.empty]
  by simp

text \<open>
  C5. A rule whose \<open>module\<close> is present, is not \<open>"undefined"\<close> and is not a key of the
  permissions is to be denied. The code looks the name up with \<open>permissions[rules.module]\<close>
  and denies when it finds nothing; for a name inherited from \<open>Object.prototype\<close> it finds
  the inherited member. The permissions of the test suite have no module \<open>constructor\<close> and
  no module \<open>toString\<close>, yet the rule for \<open>constructor\<close> is allowed, and the rule for
  \<open>toString\<close> that requires an ability throws. For every other name the rule is denied
  (\<open>checkPermissions_missing_module\<close>).
\<close>

theorem inherited_module_name:
  "userPermissions ''constructor'' = None \<and>
   checkPermissions userPermissions
     \<lparr>module = Some ''constructor'', abilities = None, checks = None,
      target = JUndefined\<rparr> = Inr True \<and>
   userPermissions ''toString'' = None \<and>
   checkPermissions userPermissions
     \<lparr>module = Some ''toString'', abilities = Some [''read''], checks = None,
      target = JUndefined\<rparr> = Inl TypeError"
  by (simp add: step_defs fixture_defs)

lemma checkPermissions_missing_module:
  "module rules = Some name \<Longrightarrow> name \<noteq> ''undefined'' \<Longrightarrow> permissions name = None \<Longrightarrow>
     \<not> inherited name \<Longrightarrow> checkPermissions permissions rules = Inr False"
  by (simp add: checkPermissions_def get_def)

text \<open>
  C6. When the rule has a checks list and no target, \<open>checkPermissions\<close> returns what it
  returns for the same rule without the checks list, so the checks step cannot change the
  result; and no check is called: the result does not depend on the checks (not even on
  whether they are declared), and with effectful checks the state stays as it was.
\<close>

theorem checks_ignored_without_target:
  "Rules.checks rules = Some cs \<Longrightarrow> target rules = JUndefined \<Longrightarrow>
     checkPermissions permissions rules =
       checkPermissions permissions (rules\<lparr>checks := None\<rparr>) \<and>
     checkPermissions_st effectful rules s =
       checkPermissions_st effectful (rules\<lparr>checks := None\<rparr>) s \<and>
     snd (checkPermissions_st effectful rules s) = s"
  by (simp add: checkPermissions_def checks_denied_falsy_target checks_denied_no_checks
      checkPermissions_st_def checks_denied_st_falsy_target checks_denied_st_no_checks
      snd_case_verdict
      cong: option.case_cong sum.case_cong bool.case_cong if_cong property.case_cong
      split: option.splits sum.splits bool.splits property.splits)

theorem checks_ignored_without_target_witness:
  "checkPermissions userPermissions
     \<lparr>module = Some ''moduleA'', abilities = Some [''read''],
      checks = Some [''isAdmin'', ''undeclared''], target = JUndefined\<rparr> =
   checkPermissions userPermissions
     \<lparr>module = Some ''moduleA'', abilities = Some [''read''], checks = None,
      target = JUndefined\<rparr> \<and>
   snd (checkPermissions_st counted
          \<lparr>module = Some ''m'', abilities = None, checks = Some [''seen''],
           target = JUndefined\<rparr> 0) = 0"
proof
  let ?rules = "\<lparr>module = Some ''moduleA'', abilities = Some [''read''],
                 checks = Some [''isAdmin'', ''undeclared''], target = JUndefined\<rparr>"
  have c: "Rules.checks ?rules = Some [''isAdmin'', ''undeclared'']"
    by simp
  have t: "target ?rules = JUndefined"
    by simp
  have "?rules\<lparr>checks := None\<rparr> =
      \<lparr>module = Some ''moduleA'', abilities = Some [''read''], checks = None,
       target = JUndefined\<rparr>"
    by simp
  then show "checkPermissions userPermissions ?rules =
      checkPermissions userPermissions
        \<lparr>module = Some ''moduleA'', abilities = Some [''read''], checks = None,
         target = JUndefined\<rparr>"
    using checks_ignored_without_target
      [where permissions = userPermissions and effectful = counted and s = 0, OF c t]
    by metis
next
  let ?rules = "\<lparr>module = Some ''m'', abilities = None, checks = Some [''seen''],
                 target = JUndefined\<rparr>"
  have c: "Rules.checks ?rules = Some [''seen'']"
    by simp
  have t: "target ?rules = JUndefined"
    by simp
  show "snd (checkPermissions_st counted ?rules 0) = 0"
    using checks_ignored_without_target
      [where permissions = userPermissions and effectful = counted and s = 0, OF c t]
    by blast
qed




text \<open>
  C9. When the permissions have an entry under the key \<open>"undefined"\<close> and the rule's
  \<open>module\<close> is \<open>"undefined"\<close>, \<open>checkPermissions\<close> returns \<open>true\<close> whatever that entry
  holds; so does the rule that \<open>canAllow\<close> builds for the label \<open>"undefined"\<close>. The entry
  can deny nothing.
\<close>

theorem module_named_undefined:
  "permissions ''undefined'' = Some permModule \<Longrightarrow> module rules = Some ''undefined'' \<Longrightarrow>
     checkPermissions permissions rules = Inr True \<and>
     checkPermissions permissions (effective_rules test ''undefined'') = Inr True"
  by (simp add: checkPermissions_def effective_rules_def split: option.splits)

theorem module_named_undefined_witness:
  "checkPermissions
     [''undefined'' \<mapsto> \<lparr>PermissionModule.abilities = [''read'' \<mapsto> False],
                        PermissionModule.checks = [''never'' \<mapsto> (\<lambda>tgt. Inr False)]\<rparr>]
     \<lparr>module = Some ''undefined'', abilities = Some [''read'', ''write''],
      checks = Some [''never''], target = JObj []\<rparr> = Inr True"
  using module_named_undefined
    [where permissions =
        "[''undefined'' \<mapsto> \<lparr>PermissionModule.abilities = [''read'' \<mapsto> False],
                           PermissionModule.checks = [''never'' \<mapsto> (\<lambda>tgt. Inr False)]\<rparr>]"
       and permModule =
        "\<lparr>PermissionModule.abilities = [''read'' \<mapsto> False],
          PermissionModule.checks = [''never'' \<mapsto> (\<lambda>tgt. Inr False)]\<rparr>"
       and rules = "\<lparr>module = Some ''undefined'', abilities = Some [''read'', ''write''],
                     checks = Some [''never''], target = JObj []\<rparr>"]
  by simp

text \<open>
  C10. Two rules that differ in their target only, both without a checks list, get the
  same result: without a checks list the target has no influence.
\<close>

theorem target_ignored_without_checks:
  "Rules.checks rules = None \<Longrightarrow>
     checkPermissions permissions (rules\<lparr>target := t1\<rparr>) =
     checkPermissions permissions (rules\<lparr>target := t2\<rparr>)"
  by (simp add: checkPermissions_def checks_denied_no_checks
      cong: option.case_cong sum.case_cong bool.case_cong if_cong property.case_cong)

theorem target_ignored_without_checks_witness:
  "checkPermissions userPermissions
     \<lparr>module = Some ''moduleA'', abilities = Some [''write''], checks = None,
      target = JObj [(''isAdmin'', JBool True)]\<rparr> =
   checkPermissions userPermissions
     \<lparr>module = Some ''moduleA'', abilities = Some [''write''], checks = None,
      target = JUndefined\<rparr>"
  using target_ignored_without_checks
    [where rules = "\<lparr>module = Some ''moduleA'', abilities = Some [''write''], checks = None,
                     target = JNull\<rparr>"
       and permissions = userPermissions
       and ?t1.0 = "JObj [(''isAdmin'', JBool True)]" and ?t2.0 = JUndefined]
  by simp




text \<open>
  C2. The abilities step is to deny when a required ability is missing from the module or
  mapped to \<open>false\<close>. The code tests the element that \<open>find\<close> returns, not whether one was
  found: when the first lacking ability is the empty string, the element found is falsy
  and the step lets the rule pass. Here \<open>moduleA\<close> has no ability \<open>""\<close> and maps \<open>write\<close>
  to \<open>false\<close>, and the rule that requires both is allowed. An ability missing from the
  module also passes when its name is inherited from \<open>Object.prototype\<close>
  (\<open>inherited_ability_granted\<close>); for names that are neither empty nor inherited the step
  is as specified (\<open>abilities_denied_named\<close>).
\<close>

theorem abilities_step_empty_name:
  "PermissionModule.abilities moduleA [] = None \<and>
   PermissionModule.abilities moduleA ''write'' = Some False \<and>
   checkPermissions userPermissions
     \<lparr>module = Some ''moduleA'', abilities = Some [[], ''write''], checks = None,
      target = JUndefined\<rparr> = Inr True"
  by (simp add: step_defs fixture_defs)

section \<open>Properties of \<open>canAllow\<close>\<close>

text \<open>
  C1. \<open>canAllow\<close> is to be the conjunction of \<open>checkPermissions\<close> over the effective
  rules of all labels. The code negates the key that \<open>find\<close> returns: when the first
  failing label is the empty string, the key found is falsy and \<open>canAllow\<close> returns
  \<open>true\<close>. Here the rule under the label \<open>""\<close> is denied (there is no module \<open>""\<close>) and
  \<open>canAllow\<close> allows; without the label \<open>""\<close> the result is the conjunction
  (\<open>canAllow_named\<close>), and for no rules it is \<open>true\<close> (\<open>canAllow_no_rules\<close>).
\<close>

theorem canAllow_empty_label:
  "checkPermissions userPermissions (effective_rules [([], no_rules)] []) = Inr False \<and>
   canAllow userPermissions [([], no_rules)] = Inr True"
  by (simp add: step_defs fixture_defs)

section \<open>Checks without effects\<close>

text \<open>
  On checks without effects the functions with the state threaded through are the
  functions above, and the state is left as it was.
\<close>

lemma find_st_effect_free:
  "find_st (\<lambda>x s0. (f x, s0)) xs s = (find_js f xs, s)"
  by (induction xs) (simp_all split: sum.splits)

lemma run_st_effect_free:
  "run_st (effect_free p) arg s = (run p arg, s)"
  by (simp add: run_st_def run_def effect_free_def split: sum.splits)

lemma inherited_call_effect_free:
  "inherited_call (map_option effect_free \<circ> cs) name arg =
     (case inherited_call cs name arg of
        Returns b \<Rightarrow> Returns b
      | Throws e \<Rightarrow> Throws e
      | Invokes f a \<Rightarrow> Invokes (effect_free f) a)"
  by (simp add: inherited_call_def split: option.splits sum.splits)

lemma check_failing_st_effect_free:
  "check_failing_st (Own (effect_free_module m)) tgt =
     (\<lambda>check s. (check_failing (Own m) tgt check, s))"
  by (intro ext)
    (simp add: check_failing_st_def check_failing_def effect_free_module_def get_def
      run_st_effect_free inherited_call_effect_free
      split: option.splits call.splits)

lemma check_failing_st_inherited:
  "check_failing_st Inherited tgt = (\<lambda>check s. (check_failing Inherited tgt check, s))"
  by (intro ext) (simp add: check_failing_st_def check_failing_def)

lemma checks_denied_st_effect_free:
  "checks_denied_st (Own (effect_free_module m)) rules s = (checks_denied (Own m) rules, s)"
  by (simp add: checks_denied_st_def checks_denied_def check_failing_st_effect_free
      find_st_effect_free split: option.splits sum.splits)

lemma checks_denied_st_inherited:
  "checks_denied_st Inherited rules s = (checks_denied Inherited rules, s)"
  by (simp add: checks_denied_st_def checks_denied_def check_failing_st_inherited
      find_st_effect_free split: option.splits sum.splits)

lemma ability_lacking_effect_free:
  "ability_lacking (Own (effect_free_module m)) = ability_lacking (Own m)"
  by (intro ext) (simp add: ability_lacking_def effect_free_module_def)

lemma abilities_denied_effect_free:
  "abilities_denied (Own (effect_free_module m)) rules = abilities_denied (Own m) rules"
  by (simp add: abilities_denied_def ability_lacking_effect_free cong: option.case_cong)

lemma abilities_denied_inherited:
  "abilities_denied (Inherited :: 's EffectfulCheck PermissionModule property) rules =
     abilities_denied (Inherited :: Check PermissionModule property) rules"
proof -
  have "ability_lacking (Inherited :: 's EffectfulCheck PermissionModule property) =
      ability_lacking (Inherited :: Check PermissionModule property)"
    by (intro ext) (simp add: ability_lacking_def)
  then show ?thesis
    by (simp add: abilities_denied_def cong: option.case_cong)
qed

lemma get_effect_free_permissions:
  "get (effect_free_permissions permissions) name =
     (case get permissions name of
        Missing \<Rightarrow> Missing
      | Inherited \<Rightarrow> Inherited
      | Own m \<Rightarrow> Own (effect_free_module m))"
  by (simp add: get_def effect_free_permissions_def split: option.splits)

lemma checkPermissions_st_effect_free:
  "checkPermissions_st (effect_free_permissions permissions) rules s =
     (checkPermissions permissions rules, s)"
proof (cases "module rules")
  case None
  then show ?thesis
    by (simp add: checkPermissions_st_def checkPermissions_def)
next
  case (Some name)
  show ?thesis
  proof (cases "get permissions name")
    case Missing
    then show ?thesis
      using Some
      by (simp add: checkPermissions_st_def checkPermissions_def get_effect_free_permissions)
  next
    case Inherited
    then show ?thesis
      using Some
      by (simp add: checkPermissions_st_def checkPermissions_def get_effect_free_permissions
          checks_denied_st_inherited abilities_denied_inherited
          split: sum.splits bool.splits)
  next
    case (Own m)
    then show ?thesis
      using Some
      by (simp add: checkPermissions_st_def checkPermissions_def get_effect_free_permissions
          checks_denied_st_effect_free abilities_denied_effect_free
          split: sum.splits bool.splits)
  qed
qed

lemma rule_failing_st_effect_free:
  "rule_failing_st (effect_free_permissions permissions) test =
     (\<lambda>key s. (rule_failing permissions test key, s))"
  by (intro ext)
    (simp add: rule_failing_st_def rule_failing_def checkPermissions_st_effect_free
      split: sum.splits)

lemma canAllow_st_effect_free:
  "canAllow_st (effect_free_permissions permissions) test s = (canAllow permissions test, s)"
  by (simp add: canAllow_st_def canAllow_def rule_failing_st_effect_free find_st_effect_free
      split: sum.splits)

section \<open>Evaluation on the heap\<close>










end
